theory Spec2Isabelle
  imports Main "HOL-Library.Multiset"
begin

text \<open>
  A model of \<open>rslite\<close> (package \<open>sync\<close>, file \<open>sync/sync.go\<close>): row-based, one-way
  synchronization of the tables of a source SQLite database into a target database. The
  functions of \<open>sync.go\<close> are translated one by one and keep their names; the database
  layer they call is modelled as far as they use it. \<open>deleteOrphans\<close> (lines 252-294)
  is called from nowhere and is left out.
\<close>

section \<open>Strings\<close>

text \<open>\<open>strings.Join\<close> and \<open>strings.Repeat\<close> of the Go standard library.\<close>

fun Join :: "string list \<Rightarrow> string \<Rightarrow> string" where
  "Join [] sep = ''''"
| "Join [s] sep = s"
| "Join (s # t # ss) sep = s @ sep @ Join (t # ss) sep"

definition Repeat :: "string \<Rightarrow> nat \<Rightarrow> string" where
  "Repeat s n = concat (replicate n s)"

section \<open>Configuration and table descriptors (sync.go, lines 12-19 and 67-71)\<close>

record Config =
  Filter :: string
  Value :: string
  NoDelete :: bool
  Tables :: "string list"
  SrcDbPath :: string
  DstDbPath :: string

record Table =
  name :: string
  columns :: "string list"
  pkCol :: string

section \<open>The database layer\<close>

text \<open>
  The program talks to SQLite through \<open>database/sql\<close>. That layer is not code of the
  repository; it is modelled here as far as \<open>sync.go\<close> uses it.

  \<^item> Every call of the layer that \<open>sync.go\<close> checks with \<open>if err != nil\<close> is a
    call site, and the environment decides by \<open>fault\<close> which sites report an error.
    The table name stands in the site, a loop's iteration index too.
  \<^item> A source table is its \<open>PRAGMA table_info\<close> rows and its stored rows, in the order
    in which a query enumerates them. A stored row has one cell per column and the
    implicit \<open>rowid\<close>.
  \<^item> A query returns its whole result: the loops of \<open>sync.go\<close> run until
    \<open>rows.Next()\<close> is false and never look at \<open>rows.Err()\<close>.
  \<^item> Column values are opaque: the type \<open>'v\<close>. A value read from the source is written
    to the target as it is. The comparison \<open>cmp\<close> of the engine decides a filter
    \<open>WHERE col op ?\<close> from the operator, the column's value and the bound text.
  \<^item> A target table is a map from the value of the key column to the remaining values of
    the row: the column \<open>pkCol\<close> of the descriptor is taken to identify a target row
    (as \<open>INTEGER PRIMARY KEY\<close>, \<open>rowid\<close> and a single-column \<open>NOT NULL\<close> key do),
    and the target table to have the columns of the source table.
  \<^item> The target connection holds the committed tables and, while a transaction is open,
    the transaction's working copy.
\<close>

datatype call =
    OpenSrc | OpenDst
  | QueryMaster | ScanName nat
  | QueryTableInfo string | ScanInfo string nat
  | Begin string | PrepareInsert string | PrepareDelete string
  | QueryRows string | ScanRow string nat | ExecInsert string nat
  | QueryIDs string | ScanID string nat | ExecDelete string
  | Commit string

datatype error =
    Failure call
  | NoSuchTable string
  | NoSuchColumn
  | Corrupt
  | ArgCount nat nat
  | TxDone
  | Errorf string error

record column_info =
  cid :: int
  col_name :: string
  ctype :: string
  notnull :: int
  dflt_val :: "string option"
  pk :: int

record 'v row =
  row_id :: 'v
  cells :: "'v list"

record 'v table_data =
  tbl_info :: "column_info list"
  tbl_rows :: "'v row list"

type_synonym 'v database = "(string \<times> 'v table_data) list"

type_synonym 'v tables = "string \<rightharpoonup> ('v \<rightharpoonup> 'v list)"

datatype 'v conn = Conn (committed: "'v tables") (pending: "'v tables option")

record 'v engine =
  cmp :: "string \<Rightarrow> 'v \<Rightarrow> string \<Rightarrow> bool"
  fault :: "call \<Rightarrow> bool"

subsection \<open>Statements\<close>

text \<open>
  The engine parses the SQL text it is given. The model hands it the parsed statement;
  \<open>render_select\<close> and \<open>render_dml\<close> give the text of a statement, and the query
  builders below are proved to produce exactly that text.
\<close>

record select_stmt =
  sel_cols :: "string list"
  sel_from :: string
  sel_where :: "(string \<times> string) option"

datatype dml =
    InsertOrReplace string "string list"
  | DeleteWhereEq string string
  | DeleteNotIn string string nat

definition render_select :: "select_stmt \<Rightarrow> string" where
  "render_select q =
     ''SELECT '' @ Join (sel_cols q) '', '' @ '' FROM '' @ sel_from q @
     (case sel_where q of
        None \<Rightarrow> ''''
      | Some (c, opr) \<Rightarrow> '' WHERE '' @ c @ '' '' @ opr @ '' ?'')"

fun render_dml :: "dml \<Rightarrow> string" where
  "render_dml (InsertOrReplace t cs) =
     ''INSERT OR REPLACE INTO '' @ t @ '' ('' @ Join cs '', '' @ '') VALUES ('' @
     Join (replicate (length cs) ''?'') '', '' @ '')''"
| "render_dml (DeleteWhereEq t c) = ''DELETE FROM '' @ t @ '' WHERE '' @ c @ '' = ?''"
| "render_dml (DeleteNotIn t c n) =
     ''DELETE FROM '' @ t @ '' WHERE '' @ c @ '' NOT IN ('' @ Join (replicate n ''?'') '','' @ '')''"

fun dml_table :: "dml \<Rightarrow> string" where
  "dml_table (InsertOrReplace t cs) = t"
| "dml_table (DeleteWhereEq t c) = t"
| "dml_table (DeleteNotIn t c n) = t"

subsection \<open>Reading the source\<close>

text \<open>
  A column name resolves to a declared column, or to the implicit \<open>rowid\<close> when no
  declared column has that name.
\<close>

definition known :: "column_info list \<Rightarrow> string \<Rightarrow> bool" where
  "known sch c = (c \<in> set (map col_name sch) \<or> c = ''rowid'')"

definition col_val :: "column_info list \<Rightarrow> 'v row \<Rightarrow> string \<Rightarrow> 'v" where
  "col_val sch r c =
     (case map_of (zip (map col_name sch) (cells r)) c of
        Some v \<Rightarrow> v
      | None \<Rightarrow> row_id r)"

definition project :: "column_info list \<Rightarrow> string list \<Rightarrow> 'v row \<Rightarrow> 'v list" where
  "project sch cs r = map (col_val sch r) cs"

definition well_formed :: "'v table_data \<Rightarrow> bool" where
  "well_formed t = list_all (\<lambda>r. length (cells r) = length (tbl_info t)) (tbl_rows t)"

text \<open>
  A select on one table. A query whose text has no placeholder ignores the arguments it
  is given (the driver binds only as many as the statement has); a query with a
  placeholder and no argument is an error.
\<close>

definition eval_select ::
  "'v engine \<Rightarrow> 'v table_data \<Rightarrow> select_stmt \<Rightarrow> string list \<Rightarrow> error + 'v list list" where
  "eval_select E t q args =
     (if \<not> list_all (known (tbl_info t))
             (sel_cols q @ (case sel_where q of None \<Rightarrow> [] | Some (c, opr) \<Rightarrow> [c]))
      then Inl NoSuchColumn
      else if \<not> well_formed t then Inl Corrupt
      else case sel_where q of
        None \<Rightarrow> Inr (map (project (tbl_info t) (sel_cols q)) (tbl_rows t))
      | Some (c, opr) \<Rightarrow>
          (case args of
             [] \<Rightarrow> Inl (ArgCount 1 0)
           | a # _ \<Rightarrow>
               Inr (map (project (tbl_info t) (sel_cols q))
                      (filter (\<lambda>r. cmp E opr (col_val (tbl_info t) r c) a) (tbl_rows t)))))"

definition Query ::
  "'v engine \<Rightarrow> 'v database \<Rightarrow> call \<Rightarrow> select_stmt \<Rightarrow> string list \<Rightarrow> error + 'v list list" where
  "Query E db site q args =
     (if fault E site then Inl (Failure site)
      else case map_of db (sel_from q) of
        None \<Rightarrow> Inl (NoSuchTable (sel_from q))
      | Some t \<Rightarrow> eval_select E t q args)"

subsection \<open>Writing the target\<close>

definition BeginTx :: "'v engine \<Rightarrow> call \<Rightarrow> 'v conn \<Rightarrow> error + 'v conn" where
  "BeginTx E site dst =
     (if fault E site then Inl (Failure site)
      else Inr (Conn (committed dst) (Some (committed dst))))"

definition Rollback :: "'v conn \<Rightarrow> 'v conn" where
  "Rollback dst = Conn (committed dst) None"

definition CommitTx :: "'v engine \<Rightarrow> call \<Rightarrow> 'v conn \<Rightarrow> error option \<times> 'v conn" where
  "CommitTx E site dst =
     (case pending dst of
        None \<Rightarrow> (Some TxDone, dst)
      | Some tx \<Rightarrow>
          if fault E site then (Some (Failure site), Rollback dst)
          else (None, Conn tx None))"

definition Prepare :: "'v engine \<Rightarrow> call \<Rightarrow> 'v conn \<Rightarrow> dml \<Rightarrow> error + dml" where
  "Prepare E site dst stmt =
     (if fault E site then Inl (Failure site)
      else case pending dst of
        None \<Rightarrow> Inl TxDone
      | Some tx \<Rightarrow>
          (case tx (dml_table stmt) of
             None \<Rightarrow> Inl (NoSuchTable (dml_table stmt))
           | Some tbl \<Rightarrow> Inr stmt))"

text \<open>
  Executing a statement inside the open transaction. \<open>INSERT OR REPLACE\<close> with the key
  column first stores the row under its key, replacing the row that had this key;
  \<open>DELETE ... WHERE key NOT IN (...)\<close> keeps the rows whose key is among the arguments.
\<close>

definition Exec :: "'v engine \<Rightarrow> call \<Rightarrow> dml \<Rightarrow> 'v list \<Rightarrow> 'v conn \<Rightarrow> error + 'v conn" where
  "Exec E site stmt args dst =
     (if fault E site then Inl (Failure site)
      else case pending dst of
        None \<Rightarrow> Inl TxDone
      | Some tx \<Rightarrow>
          (case tx (dml_table stmt) of
             None \<Rightarrow> Inl (NoSuchTable (dml_table stmt))
           | Some tbl \<Rightarrow>
               (case stmt of
                  InsertOrReplace t cs \<Rightarrow>
                    (if length args \<noteq> length cs then Inl (ArgCount (length cs) (length args))
                     else case args of
                       [] \<Rightarrow> Inl (ArgCount (length cs) 0)
                     | k # vs \<Rightarrow> Inr (Conn (committed dst) (Some (tx(t \<mapsto> tbl(k \<mapsto> vs))))))
                | DeleteWhereEq t c \<Rightarrow>
                    (case args of
                       [k] \<Rightarrow> Inr (Conn (committed dst) (Some (tx(t \<mapsto> tbl(k := None)))))
                     | _ \<Rightarrow> Inl (ArgCount 1 (length args)))
                | DeleteNotIn t c n \<Rightarrow>
                    (if length args \<noteq> n then Inl (ArgCount n (length args))
                     else Inr (Conn (committed dst) (Some (tx(t \<mapsto> tbl |` set args))))))))"

section \<open>Schema Inspector (sync.go, lines 73-129)\<close>

text \<open>The loop of \<open>getTableInfo\<close> over the rows of \<open>PRAGMA table_info\<close>.\<close>

fun tableInfoRows :: "'v engine \<Rightarrow> string \<Rightarrow> nat \<Rightarrow> column_info list \<Rightarrow> Table \<Rightarrow> error + Table" where
  "tableInfoRows E tableName i [] table = Inr table"
| "tableInfoRows E tableName i (c # cs) table =
     (if fault E (ScanInfo tableName i) then Inl (Failure (ScanInfo tableName i))
      else
        let table1 = table\<lparr>columns := columns table @ [col_name c]\<rparr>;
            table2 = (if pk c > 0 then table1\<lparr>pkCol := col_name c\<rparr> else table1)
        in tableInfoRows E tableName (i + 1) cs table2)"

text \<open>\<open>PRAGMA table_info\<close> of a table the database does not have is the empty result.\<close>

definition table_info :: "'v database \<Rightarrow> string \<Rightarrow> column_info list" where
  "table_info db tableName =
     (case map_of db tableName of None \<Rightarrow> [] | Some t \<Rightarrow> tbl_info t)"

definition getTableInfo :: "'v engine \<Rightarrow> 'v database \<Rightarrow> string \<Rightarrow> error + Table" where
  "getTableInfo E db tableName =
     (if fault E (QueryTableInfo tableName) then Inl (Failure (QueryTableInfo tableName))
      else
        case tableInfoRows E tableName 0 (table_info db tableName)
               \<lparr>name = tableName, columns = [], pkCol = ''''\<rparr> of
          Inl err \<Rightarrow> Inl err
        | Inr table \<Rightarrow>
            Inr (if pkCol table = '''' then table\<lparr>pkCol := ''rowid''\<rparr> else table))"

fun getTablesRows :: "'v engine \<Rightarrow> 'v database \<Rightarrow> nat \<Rightarrow> string list \<Rightarrow> Table list \<Rightarrow> error + Table list" where
  "getTablesRows E db i [] tables = Inr tables"
| "getTablesRows E db i (nm # rest) tables =
     (if fault E (ScanName i) then Inl (Failure (ScanName i))
      else case getTableInfo E db nm of
        Inl err \<Rightarrow> Inl err
      | Inr table \<Rightarrow> getTablesRows E db (i + 1) rest (tables @ [table]))"

definition getTables :: "'v engine \<Rightarrow> 'v database \<Rightarrow> error + Table list" where
  "getTables E db =
     (if fault E QueryMaster then Inl (Failure QueryMaster)
      else getTablesRows E db 0 (map fst db) [])"

section \<open>Query Builder (sync.go, lines 215-250)\<close>

definition buildSelectQuery :: "Table \<Rightarrow> Config \<Rightarrow> string" where
  "buildSelectQuery table cfg =
     (let cols = pkCol table # columns table;
          query = ''SELECT '' @ Join cols '', '' @ '' FROM '' @ name table
      in if Filter cfg \<noteq> '''' \<and> Value cfg \<noteq> '''' then
           (let opr = (if Filter cfg = ''gt'' then ''>''
                       else if Filter cfg = ''lt'' then ''<''
                       else if Filter cfg = ''gte'' then ''>=''
                       else if Filter cfg = ''lte'' then ''<=''
                       else '''')
            in if opr \<noteq> '''' then query @ '' WHERE '' @ pkCol table @ '' '' @ opr @ '' ?''
               else query)
         else query)"

definition buildInsertQuery :: "Table \<Rightarrow> string" where
  "buildInsertQuery table =
     (let cols = pkCol table # columns table;
          placeholders = replicate (length cols) ''?''
      in ''INSERT OR REPLACE INTO '' @ name table @ '' ('' @ Join cols '', '' @
         '') VALUES ('' @ Join placeholders '', '' @ '')'')"

text \<open>The parsed statements of these texts.\<close>

definition selectStmt :: "Table \<Rightarrow> Config \<Rightarrow> select_stmt" where
  "selectStmt table cfg =
     \<lparr>sel_cols = pkCol table # columns table,
      sel_from = name table,
      sel_where =
        (if Filter cfg \<noteq> '''' \<and> Value cfg \<noteq> '''' then
           (if Filter cfg = ''gt'' then Some (pkCol table, ''>'')
            else if Filter cfg = ''lt'' then Some (pkCol table, ''<'')
            else if Filter cfg = ''gte'' then Some (pkCol table, ''>='')
            else if Filter cfg = ''lte'' then Some (pkCol table, ''<='')
            else None)
         else None)\<rparr>"

definition insertStmt :: "Table \<Rightarrow> dml" where
  "insertStmt table = InsertOrReplace (name table) (pkCol table # columns table)"

text \<open>
  The text of the orphan delete (sync.go, lines 201-204), for \<open>n\<close> source keys.
  The slice \<open>placeholders[:len(placeholders)-1]\<close> panics on the empty text; the
  code builds the query only when \<open>n > 0\<close>.
\<close>

definition orphanDeleteQuery :: "Table \<Rightarrow> nat \<Rightarrow> string" where
  "orphanDeleteQuery table n =
     (let placeholders = Repeat ''?,'' n;
          placeholders1 = butlast placeholders
      in ''DELETE FROM '' @ name table @ '' WHERE '' @ pkCol table @ '' NOT IN ('' @
         placeholders1 @ '')'')"

section \<open>Table Synchronizer (sync.go, lines 131-213)\<close>

text \<open>
  The loop over the selected rows (lines 172-179): scan a row, upsert it. \<open>Scan\<close> wants
  as many columns as it has destinations, \<open>len(cols)\<close> of them.
\<close>

fun copyRows ::
  "'v engine \<Rightarrow> string \<Rightarrow> dml \<Rightarrow> nat \<Rightarrow> nat \<Rightarrow> 'v list list \<Rightarrow> 'v conn \<Rightarrow> error option \<times> 'v conn" where
  "copyRows E n ins ncols i [] dst = (None, dst)"
| "copyRows E n ins ncols i (vals # rest) dst =
     (if fault E (ScanRow n i) then (Some (Failure (ScanRow n i)), dst)
      else if length vals \<noteq> ncols then (Some (ArgCount ncols (length vals)), dst)
      else case Exec E (ExecInsert n i) ins vals dst of
        Inl err \<Rightarrow> (Some err, dst)
      | Inr dst1 \<Rightarrow> copyRows E n ins ncols (i + 1) rest dst1)"

text \<open>The loop over the source keys (lines 191-197).\<close>

fun scanIDs :: "'v engine \<Rightarrow> string \<Rightarrow> nat \<Rightarrow> 'v list list \<Rightarrow> 'v list \<Rightarrow> error + 'v list" where
  "scanIDs E n i [] sourceIDs = Inr sourceIDs"
| "scanIDs E n i (r # rest) sourceIDs =
     (if fault E (ScanID n i) then Inl (Failure (ScanID n i))
      else case r of
        [ident] \<Rightarrow> scanIDs E n (i + 1) rest (sourceIDs @ [ident])
      | _ \<Rightarrow> Inl (ArgCount 1 (length r)))"

text \<open>
  The body of \<open>syncTable\<close> after \<open>dst.Begin()\<close> has succeeded and the rollback has
  been deferred. It returns the error (or none) and the connection as it stands at the
  return.
\<close>

definition syncTable_tx ::
  "'v engine \<Rightarrow> 'v database \<Rightarrow> Table \<Rightarrow> Config \<Rightarrow> 'v conn \<Rightarrow> error option \<times> 'v conn" where
  "syncTable_tx E src table cfg dst =
     (case Prepare E (PrepareInsert (name table)) dst (insertStmt table) of
        Inl err \<Rightarrow> (Some err, dst)
      | Inr ins \<Rightarrow>
     (case Prepare E (PrepareDelete (name table)) dst
             (DeleteWhereEq (name table) (pkCol table)) of
        Inl err \<Rightarrow> (Some err, dst)
      | Inr deleteStmt \<Rightarrow>
     (case Query E src (QueryRows (name table)) (selectStmt table cfg)
             (if Value cfg \<noteq> '''' then [Value cfg] else []) of
        Inl err \<Rightarrow> (Some err, dst)
      | Inr rows \<Rightarrow>
     (case copyRows E (name table) ins (length (pkCol table # columns table)) 0 rows dst of
        (Some err, dst1) \<Rightarrow> (Some err, dst1)
      | (None, dst1) \<Rightarrow>
          if \<not> NoDelete cfg then
            (case Query E src (QueryIDs (name table))
                    \<lparr>sel_cols = [pkCol table], sel_from = name table, sel_where = None\<rparr> [] of
               Inl err \<Rightarrow> (Some (Errorf ''querying source IDs'' err), dst1)
             | Inr srcRows \<Rightarrow>
            (case scanIDs E (name table) 0 srcRows [] of
               Inl err \<Rightarrow> (Some (Errorf ''scanning source ID'' err), dst1)
             | Inr sourceIDs \<Rightarrow>
                 if length sourceIDs > 0 then
                   (case Exec E (ExecDelete (name table))
                           (DeleteNotIn (name table) (pkCol table) (length sourceIDs))
                           sourceIDs dst1 of
                      Inl err \<Rightarrow> (Some (Errorf ''deleting orphaned rows'' err), dst1)
                    | Inr dst2 \<Rightarrow> CommitTx E (Commit (name table)) dst2)
                 else CommitTx E (Commit (name table)) dst1))
          else CommitTx E (Commit (name table)) dst1))))"

text \<open>
  \<open>syncTable\<close>: begin the transaction, defer its rollback, run the body. The deferred
  \<open>tx.Rollback()\<close> runs at every return; after a commit it finds no transaction.
\<close>

definition syncTable ::
  "'v engine \<Rightarrow> 'v database \<Rightarrow> Table \<Rightarrow> Config \<Rightarrow> 'v conn \<Rightarrow> error option \<times> 'v conn" where
  "syncTable E src table cfg dst =
     (case BeginTx E (Begin (name table)) dst of
        Inl err \<Rightarrow> (Some err, dst)
      | Inr dst0 \<Rightarrow>
          (case syncTable_tx E src table cfg dst0 of
             (res, dst1) \<Rightarrow> (res, Rollback dst1)))"

section \<open>Sync Orchestrator (sync.go, lines 25-65)\<close>

text \<open>The loop over the retained tables (lines 59-63).\<close>

fun syncLoop ::
  "'v engine \<Rightarrow> 'v database \<Rightarrow> Config \<Rightarrow> Table list \<Rightarrow> 'v conn \<Rightarrow> error option \<times> 'v conn" where
  "syncLoop E src cfg [] dst = (None, dst)"
| "syncLoop E src cfg (table # rest) dst =
     (case syncTable E src table cfg dst of
        (Some err, dst1) \<Rightarrow> (Some (Errorf (''syncing table '' @ name table) err), dst1)
      | (None, dst1) \<Rightarrow> syncLoop E src cfg rest dst1)"

text \<open>
  \<open>Sync\<close>. The two paths of the configuration name the source database \<open>src\<close> and the
  target connection \<open>dst\<close>, two different files.
\<close>

definition Sync ::
  "'v engine \<Rightarrow> 'v database \<Rightarrow> Config \<Rightarrow> 'v conn \<Rightarrow> error option \<times> 'v conn" where
  "Sync E src cfg dst =
     (if fault E OpenSrc then (Some (Errorf ''opening source db'' (Failure OpenSrc)), dst)
      else if fault E OpenDst then (Some (Errorf ''opening target db'' (Failure OpenDst)), dst)
      else case getTables E src of
        Inl err \<Rightarrow> (Some err, dst)
      | Inr tables \<Rightarrow>
          (let tables1 =
                 (if length (Tables cfg) > 0
                  then filter (\<lambda>table. name table \<in> set (Tables cfg)) tables
                  else tables)
           in syncLoop E src cfg tables1 dst))"

section \<open>What one table's transaction computes\<close>

text \<open>
  The definitions of this section are not code of the program. They name what the
  theorems below speak about: the key column a schema yields, the keys of a source
  table, the rows a configuration puts in scope, and the outcome of \<open>syncTable\<close> as a
  function of the target table alone (\<open>sync_plan\<close>, \<open>apply_plan\<close>), which
  \<open>syncTable_plan\<close> proves equal to the program's.
\<close>

definition flagged :: "column_info list \<Rightarrow> column_info list" where
  "flagged sch = filter (\<lambda>c. pk c > 0) sch"

definition source_rows :: "'v database \<Rightarrow> string \<Rightarrow> 'v row list" where
  "source_rows src n = (case map_of src n of None \<Rightarrow> [] | Some t \<Rightarrow> tbl_rows t)"

definition row_key :: "'v database \<Rightarrow> Table \<Rightarrow> 'v row \<Rightarrow> 'v" where
  "row_key src table r = col_val (table_info src (name table)) r (pkCol table)"

definition source_keys :: "'v database \<Rightarrow> Table \<Rightarrow> 'v list" where
  "source_keys src table = map (row_key src table) (source_rows src (name table))"

definition in_scope :: "'v engine \<Rightarrow> 'v database \<Rightarrow> Table \<Rightarrow> Config \<Rightarrow> 'v row \<Rightarrow> bool" where
  "in_scope E src table cfg r =
     (case sel_where (selectStmt table cfg) of
        None \<Rightarrow> True
      | Some (c, opr) \<Rightarrow> cmp E opr (col_val (table_info src (name table)) r c) (Value cfg))"

definition upsert :: "'v list \<Rightarrow> ('v \<rightharpoonup> 'v list) \<Rightarrow> ('v \<rightharpoonup> 'v list)" where
  "upsert vals tbl = (case vals of [] \<Rightarrow> tbl | k # vs \<Rightarrow> tbl(k \<mapsto> vs))"

text \<open>The first error of the copy loop, which does not depend on the target.\<close>

fun copy_fault :: "'v engine \<Rightarrow> string \<Rightarrow> nat \<Rightarrow> nat \<Rightarrow> 'v list list \<Rightarrow> error option" where
  "copy_fault E n ncols i [] = None"
| "copy_fault E n ncols i (vals # rest) =
     (if fault E (ScanRow n i) then Some (Failure (ScanRow n i))
      else if length vals \<noteq> ncols then Some (ArgCount ncols (length vals))
      else if fault E (ExecInsert n i) then Some (Failure (ExecInsert n i))
      else copy_fault E n ncols (i + 1) rest)"

text \<open>
  The plan of a transaction on an existing target table: an error, or the rows to
  upsert and, when orphans are deleted, the keys to keep.
\<close>

definition sync_plan ::
  "'v engine \<Rightarrow> 'v database \<Rightarrow> Table \<Rightarrow> Config \<Rightarrow> error + ('v list list \<times> 'v list option)" where
  "sync_plan E src table cfg =
     (if fault E (PrepareDelete (name table)) then Inl (Failure (PrepareDelete (name table)))
      else case Query E src (QueryRows (name table)) (selectStmt table cfg)
                  (if Value cfg \<noteq> '''' then [Value cfg] else []) of
        Inl err \<Rightarrow> Inl err
      | Inr rows \<Rightarrow>
     (case copy_fault E (name table) (Suc (length (columns table))) 0 rows of
        Some err \<Rightarrow> Inl err
      | None \<Rightarrow>
          if NoDelete cfg then
            (if fault E (Commit (name table)) then Inl (Failure (Commit (name table)))
             else Inr (rows, None))
          else
            (case Query E src (QueryIDs (name table))
                    \<lparr>sel_cols = [pkCol table], sel_from = name table, sel_where = None\<rparr> [] of
               Inl err \<Rightarrow> Inl (Errorf ''querying source IDs'' err)
             | Inr srcRows \<Rightarrow>
            (case scanIDs E (name table) 0 srcRows [] of
               Inl err \<Rightarrow> Inl (Errorf ''scanning source ID'' err)
             | Inr sourceIDs \<Rightarrow>
                 if sourceIDs = [] then
                   (if fault E (Commit (name table)) then Inl (Failure (Commit (name table)))
                    else Inr (rows, None))
                 else if fault E (ExecDelete (name table))
                   then Inl (Errorf ''deleting orphaned rows'' (Failure (ExecDelete (name table))))
                 else if fault E (Commit (name table)) then Inl (Failure (Commit (name table)))
                 else Inr (rows, Some sourceIDs)))))"

definition apply_plan :: "'v list list \<times> 'v list option \<Rightarrow> ('v \<rightharpoonup> 'v list) \<Rightarrow> ('v \<rightharpoonup> 'v list)" where
  "apply_plan p tbl =
     (case snd p of
        None \<Rightarrow> fold upsert (fst p) tbl
      | Some ids \<Rightarrow> fold upsert (fst p) tbl |` set ids)"





text \<open>The tables \<open>Sync\<close> retains, and the target after syncing a list of tables in order.\<close>

definition retained :: "Config \<Rightarrow> Table list \<Rightarrow> Table list" where
  "retained cfg tables =
     (if Tables cfg = [] then tables else filter (\<lambda>table. name table \<in> set (Tables cfg)) tables)"

definition run :: "'v engine \<Rightarrow> 'v database \<Rightarrow> Config \<Rightarrow> Table list \<Rightarrow> 'v conn \<Rightarrow> 'v conn" where
  "run E src cfg ts dst = fold (\<lambda>table d. snd (syncTable E src table cfg d)) ts dst"

section \<open>Example databases\<close>

text \<open>
  The tables of the repository's test (\<open>TestSync\<close>, "Multiple tables sync" and
  "No-delete option"), with column values of three storage classes, and an engine that
  compares an integer key with the number a bound text denotes.
\<close>

datatype val = Null | Integer int | Text string

definition digit :: "char \<Rightarrow> int" where
  "digit ch =
     (case map_of (zip ''0123456789'' [0, 1, 2, 3, 4, 5, 6, 7, 8, 9]) ch of
        Some d \<Rightarrow> d
      | None \<Rightarrow> 0)"

definition int_of_text :: "string \<Rightarrow> int" where
  "int_of_text s = fold (\<lambda>ch n. 10 * n + digit ch) s 0"

definition ex_cmp :: "string \<Rightarrow> val \<Rightarrow> string \<Rightarrow> bool" where
  "ex_cmp opr v a =
     (case v of
        Integer i \<Rightarrow>
          (if opr = ''>'' then i > int_of_text a
           else if opr = ''<'' then i < int_of_text a
           else if opr = ''>='' then i \<ge> int_of_text a
           else if opr = ''<='' then i \<le> int_of_text a
           else False)
      | _ \<Rightarrow> False)"

definition ex_engine :: "val engine" where
  "ex_engine = \<lparr>cmp = ex_cmp, fault = (\<lambda>site. False)\<rparr>"

definition ex_col :: "int \<Rightarrow> string \<Rightarrow> string \<Rightarrow> int \<Rightarrow> column_info" where
  "ex_col i n ty p =
     \<lparr>cid = i, col_name = n, ctype = ty, notnull = 0, dflt_val = None, pk = p\<rparr>"

definition ex_users :: "val table_data" where
  "ex_users =
     \<lparr>tbl_info = [ex_col 0 ''id'' ''INTEGER'' 1, ex_col 1 ''name'' ''TEXT'' 0,
                  ex_col 2 ''email'' ''TEXT'' 0],
      tbl_rows =
        [\<lparr>row_id = Integer 1, cells = [Integer 1, Text ''Alice'', Text ''alice@test.com'']\<rparr>,
         \<lparr>row_id = Integer 2, cells = [Integer 2, Text ''Bob'', Text ''bob@test.com'']\<rparr>]\<rparr>"

definition ex_categories :: "val table_data" where
  "ex_categories =
     \<lparr>tbl_info = [ex_col 0 ''id'' ''INTEGER'' 1, ex_col 1 ''name'' ''TEXT'' 0],
      tbl_rows =
        [\<lparr>row_id = Integer 1, cells = [Integer 1, Text ''Category 1'']\<rparr>,
         \<lparr>row_id = Integer 2, cells = [Integer 2, Text ''Category 2'']\<rparr>]\<rparr>"

definition ex_src :: "val database" where
  "ex_src = [(''users'', ex_users), (''categories'', ex_categories)]"

definition ex_dst :: "val conn" where
  "ex_dst =
     Conn [''users'' \<mapsto>
             [Integer 1 \<mapsto> [Integer 1, Text ''Alice Old'', Text ''alice.old@test.com''],
              Integer 3 \<mapsto> [Integer 3, Text ''Charlie'', Text ''charlie@test.com'']],
           ''categories'' \<mapsto>
             [Integer 1 \<mapsto> [Integer 1, Text ''Old Category 1''],
              Integer 3 \<mapsto> [Integer 3, Text ''Category 3'']]]
          None"

definition ex_cfg :: Config where
  "ex_cfg =
     \<lparr>Filter = '''', Value = '''', NoDelete = False, Tables = [],
      SrcDbPath = ''src.db'', DstDbPath = ''dst.db''\<rparr>"

definition ex_users_table :: Table where
  "ex_users_table = \<lparr>name = ''users'', columns = [''id'', ''name'', ''email''], pkCol = ''id''\<rparr>"

definition ex_categories_table :: Table where
  "ex_categories_table = \<lparr>name = ''categories'', columns = [''id'', ''name''], pkCol = ''id''\<rparr>"

text \<open>A table with a key of two columns, and a source whose \<open>users\<close> table is empty.\<close>

definition ex_order_items :: "val table_data" where
  "ex_order_items =
     \<lparr>tbl_info = [ex_col 0 ''order_id'' ''INTEGER'' 1, ex_col 1 ''item_id'' ''INTEGER'' 2,
                  ex_col 2 ''qty'' ''INTEGER'' 0],
      tbl_rows = []\<rparr>"

definition ex_src_empty :: "val database" where
  "ex_src_empty = [(''users'', ex_users\<lparr>tbl_rows := []\<rparr>)]"

text \<open>A source whose \<open>users\<close> table has one row.\<close>

definition ex_src_one :: "val database" where
  "ex_src_one =
     [(''users'',
       ex_users\<lparr>tbl_rows :=
         [\<lparr>row_id = Integer 2, cells = [Integer 2, Text ''Bob'', Text ''bob@test.com'']\<rparr>]\<rparr>)]"

text \<open>Engines in which one upsert fails: the second row of \<open>users\<close>, of \<open>categories\<close>.\<close>

definition ex_faulty :: "val engine" where
  "ex_faulty = \<lparr>cmp = ex_cmp, fault = (\<lambda>site. site = ExecInsert ''users'' 1)\<rparr>"

definition ex_faulty2 :: "val engine" where
  "ex_faulty2 = \<lparr>cmp = ex_cmp, fault = (\<lambda>site. site = ExecInsert ''categories'' 1)\<rparr>"

text \<open>The source of the test with the rows of every table enumerated in reverse.\<close>

definition ex_src_permuted :: "val database" where
  "ex_src_permuted =
     [(''users'', ex_users\<lparr>tbl_rows := rev (tbl_rows ex_users)\<rparr>),
      (''categories'', ex_categories\<lparr>tbl_rows := rev (tbl_rows ex_categories)\<rparr>)]"

section \<open>Lemmas\<close>

subsection \<open>The examples, unfolded\<close>

lemmas ex_defs = ex_engine_def ex_src_def ex_users_def ex_categories_def ex_col_def ex_cfg_def ex_dst_def
  ex_users_table_def ex_categories_table_def ex_order_items_def ex_src_empty_def ex_src_one_def ex_faulty_def ex_faulty2_def ex_src_permuted_def

lemmas run_defs = syncTable_def syncTable_tx_def BeginTx_def Prepare_def Exec_def CommitTx_def
  Rollback_def insertStmt_def Query_def eval_select_def selectStmt_def known_def well_formed_def
  project_def col_val_def

lemmas sync_defs = Sync_def getTables_def getTableInfo_def table_info_def

subsection \<open>Schema inspection and the query texts\<close>

lemma tableInfoRows_Inr:
  "tableInfoRows E n i cs t = Inr t' \<Longrightarrow>
     name t' = name t \<and> columns t' = columns t @ map col_name cs \<and>
     pkCol t' = (if flagged cs = [] then pkCol t else col_name (last (flagged cs)))"
proof (induction cs arbitrary: i t)
  case Nil
  then show ?case by (simp add: flagged_def)
next
  case (Cons c cs)
  then show ?case
    by (auto simp: Let_def flagged_def split: if_splits)
qed

lemma getTableInfo_Inr:
  assumes "getTableInfo E db tableName = Inr table"
  shows "name table = tableName"
    and "columns table = map col_name (table_info db tableName)"
    and "pkCol table =
       (if flagged (table_info db tableName) = [] \<or>
           col_name (last (flagged (table_info db tableName))) = ''''
        then ''rowid'' else col_name (last (flagged (table_info db tableName))))"
  using assms
  by (auto simp: getTableInfo_def split: if_splits sum.splits dest!: tableInfoRows_Inr)

lemma render_selectStmt: "render_select (selectStmt table cfg) = buildSelectQuery table cfg"
  by (simp add: render_select_def selectStmt_def buildSelectQuery_def Let_def)

lemma render_insertStmt: "render_dml (insertStmt table) = buildInsertQuery table"
  by (simp add: insertStmt_def buildInsertQuery_def Let_def)

lemma Join_replicate_comma:
  "Join (replicate (Suc n) ''?'') '','' = butlast (Repeat ''?,'' (Suc n))"
proof (induction n)
  case 0
  show ?case by (simp add: Repeat_def)
next
  case (Suc n)
  have "Join (replicate (Suc (Suc n)) ''?'') '','' = ''?,'' @ Join (replicate (Suc n) ''?'') '',''"
    by simp
  also have "\<dots> = ''?,'' @ butlast (Repeat ''?,'' (Suc n))" using Suc by simp
  also have "\<dots> = butlast (Repeat ''?,'' (Suc (Suc n)))"
    by (simp add: Repeat_def butlast_append)
  finally show ?case .
qed

lemma render_orphanDelete:
  "0 < n \<Longrightarrow> render_dml (DeleteNotIn (name table) (pkCol table) n) = orphanDeleteQuery table n"
  by (cases n)
     (simp_all add: orphanDeleteQuery_def Let_def Join_replicate_comma
        del: replicate_Suc Join.simps)

subsection \<open>The transaction of one table\<close>

lemma upsert_simps [simp]:
  "upsert [] tbl = tbl"
  "upsert (k # vs) tbl = tbl(k \<mapsto> vs)"
  by (simp_all add: upsert_def)

lemma copyRows_ok:
  assumes "tx n = Some tbl" "cs \<noteq> []"
    and "copy_fault E n (length cs) i rows = None"
  shows "copyRows E n (InsertOrReplace n cs) (length cs) i rows (Conn c (Some tx)) =
           (None, Conn c (Some (tx(n \<mapsto> fold upsert rows tbl))))"
  using assms
proof (induction rows arbitrary: i tx tbl)
  case Nil
  have "tx(n \<mapsto> tbl) = tx" using Nil.prems(1) by (rule map_upd_triv)
  then show ?case by simp
next
  case (Cons vals rest)
  from Cons.prems have nf: "\<not> fault E (ScanRow n i)" "length vals = length cs"
      "\<not> fault E (ExecInsert n i)" "copy_fault E n (length cs) (i + 1) rest = None"
    by (auto split: if_splits)
  from nf(2) Cons.prems(2) obtain k vs where vals: "vals = k # vs" by (cases vals) auto
  have ex: "Exec E (ExecInsert n i) (InsertOrReplace n cs) vals (Conn c (Some tx)) =
              Inr (Conn c (Some (tx(n \<mapsto> tbl(k \<mapsto> vs)))))"
    using nf Cons.prems(1) vals by (simp add: Exec_def)
  define tbl' where "tbl' = tbl(k \<mapsto> vs)"
  define tx' where "tx' = tx(n \<mapsto> tbl')"
  have p1: "tx' n = Some tbl'" by (simp add: tx'_def)
  have "copyRows E n (InsertOrReplace n cs) (length cs) (i + 1) rest (Conn c (Some tx')) =
        (None, Conn c (Some (tx'(n \<mapsto> fold upsert rest tbl'))))"
    using Cons.IH[of tx' tbl' "i + 1"] p1 Cons.prems(2) nf(4) by blast
  then show ?case using nf ex vals by (auto simp: tx'_def tbl'_def)
qed

lemma copyRows_err:
  assumes "tx n = Some tbl" "cs \<noteq> []"
    and "copy_fault E n (length cs) i rows = Some err"
  shows "\<exists>X. copyRows E n (InsertOrReplace n cs) (length cs) i rows (Conn c (Some tx)) =
           (Some err, Conn c X)"
  using assms
proof (induction rows arbitrary: i tx tbl)
  case Nil
  then show ?case by simp
next
  case (Cons vals rest)
  show ?case
  proof (cases "fault E (ScanRow n i) \<or> length vals \<noteq> length cs \<or> fault E (ExecInsert n i)")
    case True
    then show ?thesis using Cons.prems(3)
      by (auto simp: Exec_def)
  next
    case False
    then have nf: "\<not> fault E (ScanRow n i)" "length vals = length cs"
      "\<not> fault E (ExecInsert n i)" by auto
    with Cons.prems have rest: "copy_fault E n (length cs) (i + 1) rest = Some err" by simp
    from nf(2) Cons.prems(2) obtain k vs where vals: "vals = k # vs" by (cases vals) auto
    have ex: "Exec E (ExecInsert n i) (InsertOrReplace n cs) vals (Conn c (Some tx)) =
              Inr (Conn c (Some (tx(n \<mapsto> tbl(k \<mapsto> vs)))))"
      using nf Cons.prems(1) vals by (simp add: Exec_def)
    define tbl' where "tbl' = tbl(k \<mapsto> vs)"
    define tx' where "tx' = tx(n \<mapsto> tbl')"
    have p1: "tx' n = Some tbl'" by (simp add: tx'_def)
    have "\<exists>X. copyRows E n (InsertOrReplace n cs) (length cs) (i + 1) rest
            (Conn c (Some tx')) = (Some err, Conn c X)"
      using Cons.IH[of tx' tbl' "i + 1"] p1 Cons.prems(2) rest by blast
    then show ?thesis using nf ex by (auto simp: tx'_def tbl'_def)
  qed
qed

lemma syncTable_plan:
  "syncTable E src table cfg dst =
     (if fault E (Begin (name table)) then (Some (Failure (Begin (name table))), dst)
      else if fault E (PrepareInsert (name table))
        then (Some (Failure (PrepareInsert (name table))), Rollback dst)
      else case committed dst (name table) of
        None \<Rightarrow> (Some (NoSuchTable (name table)), Rollback dst)
      | Some tbl \<Rightarrow>
          (case sync_plan E src table cfg of
             Inl err \<Rightarrow> (Some err, Rollback dst)
           | Inr p \<Rightarrow>
               (None, Conn ((committed dst)(name table \<mapsto> apply_plan p tbl)) None)))"
proof (cases "fault E (Begin (name table))")
  case True
  then show ?thesis by (simp add: syncTable_def BeginTx_def)
next
  case nb: False
  let ?n = "name table"
  let ?c = "committed dst"
  let ?d0 = "Conn ?c (Some ?c)"
  have st: "syncTable E src table cfg dst =
      (case syncTable_tx E src table cfg ?d0 of (res, dst1) \<Rightarrow> (res, Rollback dst1))"
    using nb by (simp add: syncTable_def BeginTx_def)
  show ?thesis
  proof (cases "fault E (PrepareInsert ?n)")
    case True
    then show ?thesis using nb st
      by (simp add: syncTable_tx_def Prepare_def Rollback_def)
  next
    case npi: False
    show ?thesis
    proof (cases "?c ?n")
      case None
      then show ?thesis using nb npi st
        by (simp add: syncTable_tx_def Prepare_def Rollback_def insertStmt_def)
    next
      case (Some tbl)
      have pi: "Prepare E (PrepareInsert ?n) ?d0 (insertStmt table) = Inr (insertStmt table)"
        using npi Some by (simp add: Prepare_def insertStmt_def)
      show ?thesis
      proof (cases "fault E (PrepareDelete ?n)")
        case True
        then show ?thesis using nb npi st Some pi
          by (simp add: syncTable_tx_def Prepare_def Rollback_def sync_plan_def)
      next
        case npd: False
        have pd: "Prepare E (PrepareDelete ?n) ?d0 (DeleteWhereEq ?n (pkCol table)) =
                    Inr (DeleteWhereEq ?n (pkCol table))"
          using npd Some by (simp add: Prepare_def)
        show ?thesis
        proof (cases "Query E src (QueryRows ?n) (selectStmt table cfg)
                        (if Value cfg \<noteq> '''' then [Value cfg] else [])")
          case (Inl err)
          then show ?thesis using nb npi npd st Some pi pd
            by (simp add: syncTable_tx_def Rollback_def sync_plan_def)
        next
          case (Inr rows)
          let ?cs = "pkCol table # columns table"
          show ?thesis
          proof (cases "copy_fault E ?n (length ?cs) 0 rows")
            case (Some err)
            from copyRows_err[of ?c ?n tbl ?cs E 0 rows err ?c] \<open>?c ?n = Some tbl\<close> Some
            obtain X where "copyRows E ?n (InsertOrReplace ?n ?cs) (length ?cs) 0 rows ?d0 = (Some err, Conn ?c X)"
              by auto
            then show ?thesis using nb npi npd st \<open>?c ?n = Some tbl\<close> pi pd Inr Some
              by (simp add: syncTable_tx_def Rollback_def sync_plan_def insertStmt_def)
          next
            case None
            let ?d1 = "Conn ?c (Some (?c(?n \<mapsto> fold upsert rows tbl)))"
            from copyRows_ok[of ?c ?n tbl ?cs E 0 rows ?c] \<open>?c ?n = Some tbl\<close> None
            have cr: "copyRows E ?n (InsertOrReplace ?n ?cs) (length ?cs) 0 rows ?d0 = (None, ?d1)"
              by auto
            have tx: "syncTable_tx E src table cfg ?d0 =
              (if \<not> NoDelete cfg then
            (case Query E src (QueryIDs (name table))
                    \<lparr>sel_cols = [pkCol table], sel_from = name table, sel_where = None\<rparr> [] of
               Inl err \<Rightarrow> (Some (Errorf ''querying source IDs'' err), ?d1)
             | Inr srcRows \<Rightarrow>
            (case scanIDs E (name table) 0 srcRows [] of
               Inl err \<Rightarrow> (Some (Errorf ''scanning source ID'' err), ?d1)
             | Inr sourceIDs \<Rightarrow>
                 if length sourceIDs > 0 then
                   (case Exec E (ExecDelete (name table))
                           (DeleteNotIn (name table) (pkCol table) (length sourceIDs))
                           sourceIDs ?d1 of
                      Inl err \<Rightarrow> (Some (Errorf ''deleting orphaned rows'' err), ?d1)
                    | Inr dst2 \<Rightarrow> CommitTx E (Commit (name table)) dst2)
                 else CommitTx E (Commit (name table)) ?d1))
          else CommitTx E (Commit (name table)) ?d1)"
              using pi pd Inr cr by (simp add: syncTable_tx_def insertStmt_def)
            show ?thesis
              unfolding st tx using nb npi npd \<open>?c ?n = Some tbl\<close> Inr None
              by (auto simp: sync_plan_def CommitTx_def Rollback_def Exec_def apply_plan_def
                  split: sum.splits)
          qed
        qed
      qed
    qed
  qed
qed

subsection \<open>What the plan of a transaction holds\<close>


lemma Query_rows:
  assumes "Query E src (QueryRows (name table)) (selectStmt table cfg)
             (if Value cfg \<noteq> '''' then [Value cfg] else []) = Inr rows"
  shows "rows = map (project (table_info src (name table)) (pkCol table # columns table))
                  (filter (in_scope E src table cfg) (source_rows src (name table)))"
proof -
  from assms obtain t where t: "map_of src (name table) = Some t"
    by (auto simp: Query_def selectStmt_def split: if_splits option.splits)
  have ti: "table_info src (name table) = tbl_info t" "source_rows src (name table) = tbl_rows t"
    using t by (simp_all add: table_info_def source_rows_def)
  have sw: "sel_where (selectStmt table cfg) \<noteq> None \<Longrightarrow> Value cfg \<noteq> ''''"
    by (auto simp: selectStmt_def split: if_splits)
  show ?thesis
  proof (cases "sel_where (selectStmt table cfg)")
    case None
    then show ?thesis using assms t ti
      by (auto simp: Query_def eval_select_def in_scope_def selectStmt_def split: if_splits)
  next
    case (Some a)
    then obtain c opr where a: "a = (c, opr)" by (cases a)
    from Some sw have v: "Value cfg \<noteq> ''''" by simp
    have "in_scope E src table cfg = (\<lambda>r. cmp E opr (col_val (tbl_info t) r c) (Value cfg))"
      using Some a ti by (simp add: in_scope_def fun_eq_iff)
    moreover have "sel_cols (selectStmt table cfg) = pkCol table # columns table"
      "sel_from (selectStmt table cfg) = name table"
      by (simp_all add: selectStmt_def)
    ultimately show ?thesis using assms t ti Some a v
      by (auto simp: Query_def eval_select_def split: if_splits)
  qed
qed

lemma Query_ids:
  assumes "Query E src (QueryIDs (name table))
             \<lparr>sel_cols = [pkCol table], sel_from = name table, sel_where = None\<rparr> [] = Inr srcRows"
  shows "srcRows = map (\<lambda>r. [row_key src table r]) (source_rows src (name table))"
proof -
  from assms obtain t where t: "map_of src (name table) = Some t"
    by (auto simp: Query_def split: if_splits option.splits)
  have ti: "table_info src (name table) = tbl_info t" "source_rows src (name table) = tbl_rows t"
    using t by (simp_all add: table_info_def source_rows_def)
  show ?thesis using assms t ti
    by (auto simp: Query_def eval_select_def project_def row_key_def split: if_splits)
qed

lemma scanIDs_Inr:
  "scanIDs E n i (map (\<lambda>x. [f x]) xs) acc = Inr ids \<Longrightarrow> ids = acc @ map f xs"
proof (induction xs arbitrary: i acc)
  case Nil
  then show ?case by simp
next
  case (Cons x xs)
  from Cons.prems have "scanIDs E n (i + 1) (map (\<lambda>x. [f x]) xs) (acc @ [f x]) = Inr ids"
    by (simp split: if_splits)
  from Cons.IH[OF this] show ?case by simp
qed

lemma sync_plan_Inr:
  assumes "sync_plan E src table cfg = Inr p"
  shows "fst p = map (project (table_info src (name table)) (pkCol table # columns table))
                   (filter (in_scope E src table cfg) (source_rows src (name table)))"
    and "snd p = (if NoDelete cfg \<or> source_keys src table = [] then None
                  else Some (source_keys src table))"
proof -
  from assms obtain rows where q: "Query E src (QueryRows (name table)) (selectStmt table cfg)
             (if Value cfg \<noteq> '''' then [Value cfg] else []) = Inr rows"
    by (auto simp: sync_plan_def split: if_splits sum.splits)
  from assms q have fp: "fst p = rows"
    by (auto simp: sync_plan_def split: if_splits sum.splits option.splits)
  show "fst p = map (project (table_info src (name table)) (pkCol table # columns table))
                   (filter (in_scope E src table cfg) (source_rows src (name table)))"
    using Query_rows[OF q] fp by simp
  show "snd p = (if NoDelete cfg \<or> source_keys src table = [] then None
                  else Some (source_keys src table))"
  proof (cases "NoDelete cfg")
    case True
    then show ?thesis using assms q
      by (auto simp: sync_plan_def split: if_splits sum.splits option.splits)
  next
    case False
    with assms q obtain srcRows sourceIDs where
      qi: "Query E src (QueryIDs (name table))
             \<lparr>sel_cols = [pkCol table], sel_from = name table, sel_where = None\<rparr> [] = Inr srcRows"
      and sc: "scanIDs E (name table) 0 srcRows [] = Inr sourceIDs"
      and sp: "snd p = (if sourceIDs = [] then None else Some sourceIDs)"
      by (auto simp: sync_plan_def split: if_splits sum.splits option.splits)
    have "sourceIDs = source_keys src table"
      using scanIDs_Inr[of E "name table" 0 "row_key src table" "source_rows src (name table)" "[]" sourceIDs]
        sc Query_ids[OF qi] by (simp add: source_keys_def)
    then show ?thesis using sp False by simp
  qed
qed


lemma apply_plan_dom_delete:
  "snd p = Some ids \<Longrightarrow> dom (apply_plan p tbl) \<subseteq> set ids"
  by (auto simp: apply_plan_def restrict_map_def split: if_splits)



lemma project_nonempty: "project sch (c # cs) r \<noteq> []"
  by (simp add: project_def)



subsection \<open>The loop over the tables\<close>


lemma syncTable_error_state:
  assumes "syncTable E src table cfg dst = (Some err, dst')"
  shows "committed dst' = committed dst"
    and "if fault E (Begin (name table)) then dst' = dst else pending dst' = None"
  using assms
  by (auto simp: syncTable_plan Rollback_def split: if_splits option.splits sum.splits)







lemma tableInfoRows_name: "tableInfoRows E n i cs t = Inr t' \<Longrightarrow> name t' = name t"
  by (induction cs arbitrary: i t) (auto simp: Let_def split: if_splits)

lemma getTablesRows_Inr:
  "getTablesRows E db i names acc = Inr ts \<Longrightarrow>
     map name ts = map name acc @ names \<and>
     (\<forall>t \<in> set ts. t \<in> set acc \<or> getTableInfo E db (name t) = Inr t)"
proof (induction names arbitrary: i acc)
  case Nil
  then show ?case by simp
next
  case (Cons nm rest)
  from Cons.prems obtain t where t: "getTableInfo E db nm = Inr t"
    and r: "getTablesRows E db (i + 1) rest (acc @ [t]) = Inr ts"
    by (auto split: if_splits sum.splits)
  have n: "name t = nm" using getTableInfo_Inr(1)[OF t] .
  from Cons.IH[OF r] show ?case using n t by auto
qed

lemma getTables_Inr:
  assumes "getTables E src = Inr ts"
  shows "map name ts = map fst src" and "\<forall>t \<in> set ts. getTableInfo E src (name t) = Inr t"
  using assms getTablesRows_Inr[of E src 0 "map fst src" "[]" ts]
  by (auto simp: getTables_def split: if_splits)

lemma Sync_retained:
  "Sync E src cfg dst =
     (if fault E OpenSrc then (Some (Errorf ''opening source db'' (Failure OpenSrc)), dst)
      else if fault E OpenDst then (Some (Errorf ''opening target db'' (Failure OpenDst)), dst)
      else case getTables E src of
        Inl err \<Rightarrow> (Some err, dst)
      | Inr tables \<Rightarrow> syncLoop E src cfg (retained cfg tables) dst)"
  by (simp add: Sync_def retained_def Let_def split: sum.splits)

lemma run_snoc: "run E src cfg (ts @ [t]) dst = snd (syncTable E src t cfg (run E src cfg ts dst))"
  by (simp add: run_def)

lemma syncLoop_success:
  "syncLoop E src cfg ts dst = (None, dst') \<Longrightarrow>
     dst' = run E src cfg ts dst \<and>
     (\<forall>i < length ts. fst (syncTable E src (ts ! i) cfg (run E src cfg (take i ts) dst)) = None)"
proof (induction ts arbitrary: dst)
  case Nil
  then show ?case by (simp add: run_def)
next
  case (Cons t ts)
  from Cons.prems obtain d1 where st: "syncTable E src t cfg dst = (None, d1)"
    and sl: "syncLoop E src cfg ts d1 = (None, dst')"
    by (auto split: prod.splits option.splits)
  from Cons.IH[OF sl] have ih: "dst' = run E src cfg ts d1"
    "\<And>i. i < length ts \<Longrightarrow> fst (syncTable E src (ts ! i) cfg (run E src cfg (take i ts) d1)) = None"
    by auto
  have r: "\<And>xs. run E src cfg (t # xs) dst = run E src cfg xs d1"
    using st by (simp add: run_def)
  show ?case
  proof (intro conjI allI impI)
    show "dst' = run E src cfg (t # ts) dst" using ih(1) r by simp
  next
    fix i assume "i < length (t # ts)"
    then show "fst (syncTable E src ((t # ts) ! i) cfg (run E src cfg (take i (t # ts)) dst)) = None"
    proof (cases i)
      case 0
      then show ?thesis using st by (simp add: run_def)
    next
      case (Suc j)
      then show ?thesis using ih(2)[of j] r \<open>i < length (t # ts)\<close> by simp
    qed
  qed
qed

lemma syncLoop_failure:
  "syncLoop E src cfg ts dst = (Some err, dst') \<Longrightarrow>
     \<exists>before table rest e.
       ts = before @ table # rest \<and>
       syncLoop E src cfg before dst = (None, run E src cfg before dst) \<and>
       syncTable E src table cfg (run E src cfg before dst) = (Some e, dst') \<and>
       err = Errorf (''syncing table '' @ name table) e"
proof (induction ts arbitrary: dst)
  case Nil
  then show ?case by simp
next
  case (Cons t ts)
  obtain r d1 where st: "syncTable E src t cfg dst = (r, d1)" by (cases "syncTable E src t cfg dst")
  show ?case
  proof (cases r)
    case (Some e)
    with st Cons.prems have "err = Errorf (''syncing table '' @ name t) e" "dst' = d1" by auto
    then have "t # ts = [] @ t # ts \<and> syncLoop E src cfg [] dst = (None, run E src cfg [] dst) \<and>
       syncTable E src t cfg (run E src cfg [] dst) = (Some e, dst') \<and>
       err = Errorf (''syncing table '' @ name t) e"
      using st Some by (simp add: run_def)
    then show ?thesis by blast
  next
    case None
    with st Cons.prems have "syncLoop E src cfg ts d1 = (Some err, dst')" by simp
    from Cons.IH[OF this] obtain before' table rest e where
      ts: "ts = before' @ table # rest" and
      ok: "syncLoop E src cfg before' d1 = (None, run E src cfg before' d1)" and
      f: "syncTable E src table cfg (run E src cfg before' d1) = (Some e, dst')" and
      e: "err = Errorf (''syncing table '' @ name table) e"
      by blast
    have r: "run E src cfg (t # before') dst = run E src cfg before' d1"
      using st by (simp add: run_def)
    have "t # ts = (t # before') @ table # rest \<and>
       syncLoop E src cfg (t # before') dst = (None, run E src cfg (t # before') dst) \<and>
       syncTable E src table cfg (run E src cfg (t # before') dst) = (Some e, dst') \<and>
       err = Errorf (''syncing table '' @ name table) e"
      using ts ok f e r st None by simp
    then show ?thesis by blast
  qed
qed

subsection \<open>With and without deletion\<close>



lemma syncTable_delete_subset:
  assumes "syncTable E src table cfg dst = (None, dst')" "\<not> NoDelete cfg"
    "source_keys src table \<noteq> []"
  shows "\<exists>tbl'. committed dst' (name table) = Some tbl' \<and>
           dom tbl' \<subseteq> set (source_keys src table)"
proof -
  from assms(1) obtain tbl p where p: "sync_plan E src table cfg = Inr p"
    and d: "dst' = Conn ((committed dst)(name table \<mapsto> apply_plan p tbl)) None"
    by (auto simp: syncTable_plan split: if_splits option.splits sum.splits)
  have "snd p = Some (source_keys src table)" using sync_plan_Inr(2)[OF p] assms(2,3) by simp
  from apply_plan_dom_delete[OF this] show ?thesis using d by simp
qed

lemma syncTable_empty_source:
  assumes "syncTable E src table cfg dst = (None, dst')" "source_keys src table = []"
  shows "committed dst' = committed dst"
proof -
  from assms(1) obtain tbl p where p: "sync_plan E src table cfg = Inr p"
    and c: "committed dst (name table) = Some tbl"
    and d: "dst' = Conn ((committed dst)(name table \<mapsto> apply_plan p tbl)) None"
    by (auto simp: syncTable_plan split: if_splits option.splits sum.splits)
  have "source_rows src (name table) = []" using assms(2) by (simp add: source_keys_def)
  then have "fst p = []" using sync_plan_Inr(1)[OF p] by simp
  moreover have "snd p = None" using sync_plan_Inr(2)[OF p] assms(2) by simp
  ultimately have "apply_plan p tbl = tbl" by (simp add: apply_plan_def)
  then show ?thesis using d c by (simp add: map_upd_triv)
qed

subsection \<open>The test of the repository, replayed\<close>

lemma Sync_example:
  "Sync ex_engine ex_src ex_cfg ex_dst =
     (None,
      Conn [''users'' \<mapsto>
              [Integer 1 \<mapsto> [Integer 1, Text ''Alice'', Text ''alice@test.com''],
               Integer 2 \<mapsto> [Integer 2, Text ''Bob'', Text ''bob@test.com'']],
            ''categories'' \<mapsto>
              [Integer 1 \<mapsto> [Integer 1, Text ''Category 1''],
               Integer 2 \<mapsto> [Integer 2, Text ''Category 2'']]]
           None)"
  by (simp add: sync_defs run_defs ex_defs fun_upd_twist)

lemma Sync_example_NoDelete:
  "Sync ex_engine ex_src (ex_cfg\<lparr>NoDelete := True\<rparr>) ex_dst =
     (None,
      Conn [''users'' \<mapsto>
              [Integer 1 \<mapsto> [Integer 1, Text ''Alice'', Text ''alice@test.com''],
               Integer 2 \<mapsto> [Integer 2, Text ''Bob'', Text ''bob@test.com''],
               Integer 3 \<mapsto> [Integer 3, Text ''Charlie'', Text ''charlie@test.com'']],
            ''categories'' \<mapsto>
              [Integer 1 \<mapsto> [Integer 1, Text ''Category 1''],
               Integer 2 \<mapsto> [Integer 2, Text ''Category 2''],
               Integer 3 \<mapsto> [Integer 3, Text ''Category 3'']]]
           None)"
  by (simp add: sync_defs run_defs ex_defs fun_upd_twist)

lemma Sync_example_filter:
  "Sync ex_engine ex_src (ex_cfg\<lparr>Filter := ''gt'', Value := ''1'', Tables := [''users'']\<rparr>) ex_dst =
     (None,
      Conn [''users'' \<mapsto>
              [Integer 1 \<mapsto> [Integer 1, Text ''Alice Old'', Text ''alice.old@test.com''],
               Integer 2 \<mapsto> [Integer 2, Text ''Bob'', Text ''bob@test.com'']],
            ''categories'' \<mapsto>
              [Integer 1 \<mapsto> [Integer 1, Text ''Old Category 1''],
               Integer 3 \<mapsto> [Integer 3, Text ''Category 3'']]]
           None)"
  by (simp add: sync_defs run_defs ex_defs ex_cmp_def int_of_text_def digit_def fun_upd_twist)

lemma Sync_example_failure:
  "Sync ex_faulty2 ex_src ex_cfg ex_dst =
     (Some (Errorf ''syncing table categories'' (Failure (ExecInsert ''categories'' 1))),
      Conn [''users'' \<mapsto>
              [Integer 1 \<mapsto> [Integer 1, Text ''Alice'', Text ''alice@test.com''],
               Integer 2 \<mapsto> [Integer 2, Text ''Bob'', Text ''bob@test.com'']],
            ''categories'' \<mapsto>
              [Integer 1 \<mapsto> [Integer 1, Text ''Old Category 1''],
               Integer 3 \<mapsto> [Integer 3, Text ''Category 3'']]]
           None)"
  by (simp add: sync_defs run_defs ex_defs ex_faulty2_def fun_upd_twist)

lemma Sync_example_one_row:
  "Sync ex_engine ex_src_one ex_cfg ex_dst =
     (None,
      Conn [''users'' \<mapsto> [Integer 2 \<mapsto> [Integer 2, Text ''Bob'', Text ''bob@test.com'']],
            ''categories'' \<mapsto>
              [Integer 1 \<mapsto> [Integer 1, Text ''Old Category 1''],
               Integer 3 \<mapsto> [Integer 3, Text ''Category 3'']]]
           None)"
  by (simp add: sync_defs run_defs ex_defs fun_upd_twist)

lemma Sync_example_empty_source:
  "Sync ex_engine ex_src_empty ex_cfg ex_dst = (None, ex_dst)"
  by (simp add: sync_defs run_defs ex_defs fun_upd_twist)

lemma syncTable_tx_partial_write_example:
  "syncTable_tx ex_faulty ex_src ex_users_table ex_cfg
     (Conn (committed ex_dst) (Some (committed ex_dst))) =
   (Some (Failure (ExecInsert ''users'' 1)),
    Conn (committed ex_dst)
      (Some ((committed ex_dst)(''users'' \<mapsto>
         [Integer 1 \<mapsto> [Integer 1, Text ''Alice'', Text ''alice@test.com''],
          Integer 3 \<mapsto> [Integer 3, Text ''Charlie'', Text ''charlie@test.com'']]))))"
  by (simp add: run_defs ex_defs fun_upd_twist)

subsection \<open>Configurations that behave alike\<close>

lemma syncLoop_cong:
  assumes "\<And>t d. t \<in> set ts \<Longrightarrow> syncTable E src t cfg d = syncTable E' src' t cfg' d"
  shows "syncLoop E src cfg ts dst = syncLoop E' src' cfg' ts dst"
  using assms
proof (induction ts arbitrary: dst)
  case Nil
  then show ?case by simp
next
  case (Cons t ts)
  have "syncTable E src t cfg dst = syncTable E' src' t cfg' dst" using Cons.prems by simp
  moreover have "\<And>d. syncLoop E src cfg ts d = syncLoop E' src' cfg' ts d"
    using Cons by simp
  ultimately show ?case by (simp split: prod.splits option.splits)
qed

lemma selectStmt_where_iff:
  "sel_where (selectStmt table cfg) \<noteq> None \<longleftrightarrow>
     Value cfg \<noteq> '''' \<and> Filter cfg \<in> {''gt'', ''lt'', ''gte'', ''lte''}"
  by (auto simp: selectStmt_def)

lemma Query_no_where:
  assumes "sel_where q = None"
  shows "Query E src site q args = Query E src site q []"
  using assms by (simp add: Query_def eval_select_def split: option.splits)

lemma syncTable_filter_absent:
  assumes "Value cfg = '''' \<or> Filter cfg \<notin> {''gt'', ''lt'', ''gte'', ''lte''}"
  shows "syncTable E src table cfg dst =
           syncTable E src table (cfg\<lparr>Filter := '''', Value := ''''\<rparr>) dst"
proof -
  let ?cfg' = "cfg\<lparr>Filter := '''', Value := ''''\<rparr>"
  have w: "sel_where (selectStmt table cfg) = None"
    using assms selectStmt_where_iff[of table cfg] by blast
  have s: "selectStmt table ?cfg' = selectStmt table cfg"
    using w by (simp add: selectStmt_def split: if_splits)
  have q: "Query E src (QueryRows (name table)) (selectStmt table cfg)
             (if Value cfg \<noteq> '''' then [Value cfg] else []) =
           Query E src (QueryRows (name table)) (selectStmt table ?cfg') []"
  proof (cases "Value cfg = ''''")
    case True
    then show ?thesis using s by simp
  next
    case False
    then show ?thesis
      using Query_no_where[OF w, of E src "QueryRows (name table)" "[Value cfg]"] s by simp
  qed
  have "\<And>d. syncTable_tx E src table cfg d = syncTable_tx E src table ?cfg' d"
    unfolding syncTable_tx_def q by (simp cong: sum.case_cong prod.case_cong option.case_cong)
  then show ?thesis by (simp add: syncTable_def cong: sum.case_cong)
qed

lemma Sync_filter_absent:
  assumes "Value cfg = '''' \<or> Filter cfg \<notin> {''gt'', ''lt'', ''gte'', ''lte''}"
  shows "Sync E src cfg dst = Sync E src (cfg\<lparr>Filter := '''', Value := ''''\<rparr>) dst"
proof -
  have "\<And>ts. syncLoop E src cfg ts dst = syncLoop E src (cfg\<lparr>Filter := '''', Value := ''''\<rparr>) ts dst"
    by (rule syncLoop_cong) (rule syncTable_filter_absent[OF assms])
  then show ?thesis by (simp add: Sync_retained retained_def split: sum.splits)
qed





subsection \<open>Sources with the same rows in another order\<close>



















section \<open>The claims\<close>

text \<open>
  C1. The claim: with \<open>NoDelete = false\<close>, after a successful \<open>syncTable\<close> the
  keys of the target table are among the keys of the source table, and an empty source
  table empties the target table. The orphan delete runs only under
  \<open>len(sourceIDs) > 0\<close>, so for an empty source table nothing is deleted: the
  \<open>users\<close> table of the target keeps its rows 1 and 3 although the source has none.
  For a source table with at least one row the keys of the target are among the
  source's (\<open>syncTable_delete_subset\<close>): with the one row 2 in the source, rows 1
  and 3 of the target are deleted (\<open>Sync_example_one_row\<close>).
\<close>

theorem empty_source_keeps_target_rows:
  "NoDelete ex_cfg = False \<and>
   source_keys ex_src_empty ex_users_table = [] \<and>
   syncTable ex_engine ex_src_empty ex_users_table ex_cfg ex_dst = (None, ex_dst) \<and>
   Sync ex_engine ex_src_empty ex_cfg ex_dst = (None, ex_dst) \<and>
   (\<exists>tbl. committed ex_dst ''users'' = Some tbl \<and> dom tbl = {Integer 1, Integer 3})"
proof -
  have "syncTable ex_engine ex_src_empty ex_users_table ex_cfg ex_dst = (None, ex_dst)"
    by (simp add: run_defs ex_defs fun_upd_twist)
  moreover have "source_keys ex_src_empty ex_users_table = []"
    by (simp add: source_keys_def source_rows_def ex_defs)
  moreover have "\<exists>tbl. committed ex_dst ''users'' = Some tbl \<and> dom tbl = {Integer 1, Integer 3}"
    by (auto simp: ex_dst_def)
  ultimately show ?thesis using Sync_example_empty_source by (simp add: ex_cfg_def)
qed

text \<open>
  C2. The text \<open>buildSelectQuery\<close> returns is the text of the statement the
  model executes, and that statement has a \<open>WHERE\<close> clause exactly when \<open>Value\<close> is not
  empty and \<open>Filter\<close> is one of \<open>gt\<close>, \<open>lt\<close>, \<open>gte\<close>, \<open>lte\<close>. Otherwise the text ends
  after the table name, a successful select returns one tuple for every row of the
  source table, and \<open>syncTable\<close> and \<open>Sync\<close> return what they return for the
  configuration with both fields empty, also when a value is bound to a query that
  has no placeholder.
\<close>

theorem filter_only_when_both_present:
  "buildSelectQuery table cfg = render_select (selectStmt table cfg) \<and>
   (sel_where (selectStmt table cfg) \<noteq> None \<longleftrightarrow>
      Value cfg \<noteq> '''' \<and> Filter cfg \<in> {''gt'', ''lt'', ''gte'', ''lte''}) \<and>
   (Value cfg = '''' \<or> Filter cfg \<notin> {''gt'', ''lt'', ''gte'', ''lte''} \<longrightarrow>
      buildSelectQuery table cfg =
        ''SELECT '' @ Join (pkCol table # columns table) '', '' @ '' FROM '' @ name table \<and>
      (\<forall>rows. Query E src (QueryRows (name table)) (selectStmt table cfg)
                 (if Value cfg \<noteq> '''' then [Value cfg] else []) = Inr rows \<longrightarrow>
              rows = map (project (table_info src (name table)) (pkCol table # columns table))
                       (source_rows src (name table))) \<and>
      syncTable E src table cfg dst =
        syncTable E src table (cfg\<lparr>Filter := '''', Value := ''''\<rparr>) dst \<and>
      Sync E src cfg dst = Sync E src (cfg\<lparr>Filter := '''', Value := ''''\<rparr>) dst)"
proof (intro conjI impI allI)
  show "buildSelectQuery table cfg = render_select (selectStmt table cfg)"
    by (rule render_selectStmt[symmetric])
  show "sel_where (selectStmt table cfg) \<noteq> None \<longleftrightarrow>
      Value cfg \<noteq> '''' \<and> Filter cfg \<in> {''gt'', ''lt'', ''gte'', ''lte''}"
    by (rule selectStmt_where_iff)
next
  assume a: "Value cfg = '''' \<or> Filter cfg \<notin> {''gt'', ''lt'', ''gte'', ''lte''}"
  then have w: "sel_where (selectStmt table cfg) = None"
    using selectStmt_where_iff[of table cfg] by blast
  show "buildSelectQuery table cfg =
        ''SELECT '' @ Join (pkCol table # columns table) '', '' @ '' FROM '' @ name table"
    using w render_selectStmt[of table cfg]
    by (simp add: render_select_def selectStmt_def split: if_splits)
  show "syncTable E src table cfg dst =
        syncTable E src table (cfg\<lparr>Filter := '''', Value := ''''\<rparr>) dst"
    by (rule syncTable_filter_absent[OF a])
  show "Sync E src cfg dst = Sync E src (cfg\<lparr>Filter := '''', Value := ''''\<rparr>) dst"
    by (rule Sync_filter_absent[OF a])
  fix rows
  assume q: "Query E src (QueryRows (name table)) (selectStmt table cfg)
                 (if Value cfg \<noteq> '''' then [Value cfg] else []) = Inr rows"
  have "\<And>r. in_scope E src table cfg r" using w by (simp add: in_scope_def)
  then show "rows = map (project (table_info src (name table)) (pkCol table # columns table))
                       (source_rows src (name table))"
    using Query_rows[OF q] by simp
qed

text \<open>
  The witness: a value without an operator, \<open>Value = "1"\<close> and \<open>Filter = ""\<close>. The query
  has no placeholder, the bound value is ignored, and all rows are copied.
\<close>

theorem filter_only_when_both_present_witness:
  "buildSelectQuery ex_users_table (ex_cfg\<lparr>Value := ''1''\<rparr>) =
     ''SELECT id, id, name, email FROM users'' \<and>
   Query ex_engine ex_src (QueryRows ''users'') (selectStmt ex_users_table (ex_cfg\<lparr>Value := ''1''\<rparr>))
     [''1''] =
     Inr [[Integer 1, Integer 1, Text ''Alice'', Text ''alice@test.com''],
          [Integer 2, Integer 2, Text ''Bob'', Text ''bob@test.com'']] \<and>
   Sync ex_engine ex_src (ex_cfg\<lparr>Value := ''1''\<rparr>) ex_dst = Sync ex_engine ex_src ex_cfg ex_dst \<and>
   fst (Sync ex_engine ex_src (ex_cfg\<lparr>Value := ''1''\<rparr>) ex_dst) = None"
proof -
  let ?cfg = "ex_cfg\<lparr>Value := ''1''\<rparr>"
  have a: "Value ?cfg = '''' \<or> Filter ?cfg \<notin> {''gt'', ''lt'', ''gte'', ''lte''}"
    by (simp add: ex_cfg_def)
  have e: "?cfg\<lparr>Filter := '''', Value := ''''\<rparr> = ex_cfg" by (simp add: ex_cfg_def)
  note th = filter_only_when_both_present[of ex_users_table ?cfg ex_engine ex_src ex_dst]
  from th a have 1: "buildSelectQuery ex_users_table ?cfg =
      ''SELECT '' @ Join (pkCol ex_users_table # columns ex_users_table) '', '' @ '' FROM '' @
      name ex_users_table"
    by blast
  from th a have 2: "Sync ex_engine ex_src ?cfg ex_dst =
      Sync ex_engine ex_src (?cfg\<lparr>Filter := '''', Value := ''''\<rparr>) ex_dst"
    by blast
  have 3: "Query ex_engine ex_src (QueryRows ''users'') (selectStmt ex_users_table ?cfg) [''1''] =
     Inr [[Integer 1, Integer 1, Text ''Alice'', Text ''alice@test.com''],
          [Integer 2, Integer 2, Text ''Bob'', Text ''bob@test.com'']]"
    by (simp add: run_defs ex_defs)
  show ?thesis using 1 2 3 e Sync_example by (simp add: ex_users_table_def)
qed

text \<open>
  C3. The claim: the descriptor's \<open>primaryKeyColumn\<close> is the first column
  flagged as part of the primary key in catalog order, \<open>rowid\<close> if none is flagged, and
  never empty. The loop of \<open>getTableInfo\<close> assigns \<open>pkCol\<close> at every flagged column, so
  the last one stays. As amended: \<open>pkCol\<close> is the name of the last flagged column in
  catalog order, or \<open>rowid\<close> when no column is flagged or that name is empty; it is never
  empty.
\<close>

theorem getTableInfo_pkCol:
  assumes "getTableInfo E db tableName = Inr table"
  shows "pkCol table \<noteq> '''' \<and>
         pkCol table =
           (if flagged (table_info db tableName) = [] \<or>
               col_name (last (flagged (table_info db tableName))) = ''''
            then ''rowid'' else col_name (last (flagged (table_info db tableName))))"
  using getTableInfo_Inr(3)[OF assms] by (auto split: if_splits)

theorem getTableInfo_pkCol_witness:
  "getTableInfo ex_engine [(''order_items'', ex_order_items)] ''order_items'' =
     Inr \<lparr>name = ''order_items'', columns = [''order_id'', ''item_id'', ''qty''], pkCol = ''item_id''\<rparr> \<and>
   pkCol \<lparr>name = ''order_items'', columns = [''order_id'', ''item_id'', ''qty''], pkCol = ''item_id''\<rparr> \<noteq> '''' \<and>
   flagged (table_info [(''order_items'', ex_order_items)] ''order_items'') =
     [ex_col 0 ''order_id'' ''INTEGER'' 1, ex_col 1 ''item_id'' ''INTEGER'' 2]"
proof -
  have h: "getTableInfo ex_engine [(''order_items'', ex_order_items)] ''order_items'' =
     Inr \<lparr>name = ''order_items'', columns = [''order_id'', ''item_id'', ''qty''], pkCol = ''item_id''\<rparr>"
    by (simp add: getTableInfo_def table_info_def ex_defs)
  show ?thesis
    using h getTableInfo_pkCol[OF h]
    by (simp add: flagged_def table_info_def ex_defs)
qed

text \<open>
  The claim as stated fails on a table whose key has two columns: the first flagged
  column is \<open>order_id\<close>, the descriptor's key column is \<open>item_id\<close>.
\<close>

theorem first_flagged_counterexample:
  "getTableInfo ex_engine [(''order_items'', ex_order_items)] ''order_items'' =
     Inr \<lparr>name = ''order_items'', columns = [''order_id'', ''item_id'', ''qty''], pkCol = ''item_id''\<rparr> \<and>
   col_name (hd (flagged (table_info [(''order_items'', ex_order_items)] ''order_items''))) = ''order_id''"
  by (simp add: getTableInfo_def table_info_def flagged_def ex_defs)

text \<open>
  C4. The claim: \<open>columns\<close> holds exactly the non-key columns in schema
  order, and the select lists the key column first and every column exactly once.
  \<open>getTableInfo\<close> appends every column to \<open>columns\<close>, the key column too. As amended:
  \<open>columns\<close> holds all columns of the table in schema order; the select lists \<open>pkCol\<close>
  first and then all columns in schema order, so \<open>pkCol\<close> stands once more than in the
  schema (twice for a declared key column) and every other column as often as in the
  schema.
\<close>

theorem getTableInfo_columns:
  assumes "getTableInfo E db tableName = Inr table"
  shows "columns table = map col_name (table_info db tableName) \<and>
         buildSelectQuery table cfg =
           render_select
             \<lparr>sel_cols = pkCol table # map col_name (table_info db tableName),
              sel_from = tableName,
              sel_where = sel_where (selectStmt table cfg)\<rparr> \<and>
         (\<forall>c. count_list (pkCol table # columns table) c =
              count_list (map col_name (table_info db tableName)) c +
              (if c = pkCol table then 1 else 0))"
proof -
  have "selectStmt table cfg =
          \<lparr>sel_cols = pkCol table # map col_name (table_info db tableName),
              sel_from = tableName,
              sel_where = sel_where (selectStmt table cfg)\<rparr>"
    using getTableInfo_Inr(1,2)[OF assms] by (simp add: selectStmt_def)
  then have "buildSelectQuery table cfg = render_select
             \<lparr>sel_cols = pkCol table # map col_name (table_info db tableName),
              sel_from = tableName,
              sel_where = sel_where (selectStmt table cfg)\<rparr>"
    using render_selectStmt[of table cfg] by simp
  then show ?thesis using getTableInfo_Inr(2)[OF assms] by simp
qed

theorem getTableInfo_columns_witness:
  "getTableInfo ex_engine ex_src ''users'' = Inr ex_users_table \<and>
   (columns ex_users_table = map col_name (table_info ex_src ''users'') \<and>
    buildSelectQuery ex_users_table ex_cfg =
      render_select
        \<lparr>sel_cols = pkCol ex_users_table # map col_name (table_info ex_src ''users''),
         sel_from = ''users'',
         sel_where = sel_where (selectStmt ex_users_table ex_cfg)\<rparr> \<and>
    (\<forall>c. count_list (pkCol ex_users_table # columns ex_users_table) c =
         count_list (map col_name (table_info ex_src ''users'')) c +
         (if c = pkCol ex_users_table then 1 else 0)))"
proof -
  have h: "getTableInfo ex_engine ex_src ''users'' = Inr ex_users_table"
    by (simp add: getTableInfo_def table_info_def ex_defs)
  show ?thesis
    by (rule conjI[OF h getTableInfo_columns[OF h]])
qed

text \<open>
  The claim as stated fails on the \<open>users\<close> table of the test: the key column \<open>id\<close> is
  among \<open>columns\<close>, and the select names it twice.
\<close>

theorem key_column_listed_counterexample:
  "getTableInfo ex_engine ex_src ''users'' = Inr ex_users_table \<and>
   pkCol ex_users_table \<in> set (columns ex_users_table) \<and>
   buildSelectQuery ex_users_table ex_cfg = ''SELECT id, id, name, email FROM users''"
  by (simp add: getTableInfo_def table_info_def buildSelectQuery_def ex_defs)









text \<open>
  C9. \<open>Sync\<close> takes the retained tables in the order of the source catalog,
  each from the target the tables before it have left. When it returns no error, every
  retained table was synchronized. When it returns an error after the tables were
  listed, the retained tables split into the tables before the failing one, which all
  succeeded, the failing table and the rest: the error is the failing table's error
  wrapped with \<open>syncing table <name>\<close>, and the target is the one \<open>syncTable\<close> of the
  failing table returned, whose committed tables are those the tables before have
  left, so no table of the rest was touched.
\<close>

theorem Sync_stops_at_first_failure:
  assumes "Sync E src cfg dst = (res, dst')"
    and "\<not> fault E OpenSrc" "\<not> fault E OpenDst" "getTables E src = Inr tables"
  shows "map name tables = map fst src \<and>
         (case res of
            None \<Rightarrow>
              dst' = run E src cfg (retained cfg tables) dst \<and>
              (\<forall>i < length (retained cfg tables).
                 fst (syncTable E src (retained cfg tables ! i) cfg
                        (run E src cfg (take i (retained cfg tables)) dst)) = None)
          | Some err \<Rightarrow>
              (\<exists>before table rest e.
                 retained cfg tables = before @ table # rest \<and>
                 (\<forall>i < length before.
                    fst (syncTable E src (before ! i) cfg (run E src cfg (take i before) dst)) = None) \<and>
                 syncTable E src table cfg (run E src cfg before dst) = (Some e, dst') \<and>
                 err = Errorf (''syncing table '' @ name table) e \<and>
                 committed dst' = committed (run E src cfg before dst)))"
proof -
  have sl: "syncLoop E src cfg (retained cfg tables) dst = (res, dst')"
    using assms by (simp add: Sync_retained)
  have names: "map name tables = map fst src" using getTables_Inr(1)[OF assms(4)] .
  show ?thesis
  proof (cases res)
    case None
    then show ?thesis using syncLoop_success[of E src cfg "retained cfg tables" dst dst'] sl names
      by simp
  next
    case (Some err)
    from syncLoop_failure[of E src cfg "retained cfg tables" dst err dst'] sl Some
    obtain before table rest e where
      ts: "retained cfg tables = before @ table # rest" and
      ok: "syncLoop E src cfg before dst = (None, run E src cfg before dst)" and
      f: "syncTable E src table cfg (run E src cfg before dst) = (Some e, dst')" and
      e: "err = Errorf (''syncing table '' @ name table) e"
      by blast
    have "\<forall>i < length before.
            fst (syncTable E src (before ! i) cfg (run E src cfg (take i before) dst)) = None"
      using syncLoop_success[OF ok] by simp
    moreover have "committed dst' = committed (run E src cfg before dst)"
      using syncTable_error_state(1)[OF f] .
    ultimately show ?thesis using Some names ts f e by auto
  qed
qed

text \<open>
  The witness: the upsert of the second \<open>categories\<close> row fails. \<open>users\<close>, first in the
  catalog, is committed; \<open>categories\<close> is as it was.
\<close>

theorem Sync_stops_at_first_failure_witness:
  "Sync ex_faulty2 ex_src ex_cfg ex_dst =
     (Some (Errorf ''syncing table categories'' (Failure (ExecInsert ''categories'' 1))),
      Conn [''users'' \<mapsto>
              [Integer 1 \<mapsto> [Integer 1, Text ''Alice'', Text ''alice@test.com''],
               Integer 2 \<mapsto> [Integer 2, Text ''Bob'', Text ''bob@test.com'']],
            ''categories'' \<mapsto>
              [Integer 1 \<mapsto> [Integer 1, Text ''Old Category 1''],
               Integer 3 \<mapsto> [Integer 3, Text ''Category 3'']]]
           None) \<and>
   \<not> fault ex_faulty2 OpenSrc \<and> \<not> fault ex_faulty2 OpenDst \<and>
   getTables ex_faulty2 ex_src = Inr [ex_users_table, ex_categories_table] \<and>
   retained ex_cfg [ex_users_table, ex_categories_table] = [ex_users_table] @ ex_categories_table # [] \<and>
   (\<exists>before table rest e.
      retained ex_cfg [ex_users_table, ex_categories_table] = before @ table # rest \<and>
      syncTable ex_faulty2 ex_src table ex_cfg (run ex_faulty2 ex_src ex_cfg before ex_dst) =
        (Some e,
         Conn [''users'' \<mapsto>
              [Integer 1 \<mapsto> [Integer 1, Text ''Alice'', Text ''alice@test.com''],
               Integer 2 \<mapsto> [Integer 2, Text ''Bob'', Text ''bob@test.com'']],
            ''categories'' \<mapsto>
              [Integer 1 \<mapsto> [Integer 1, Text ''Old Category 1''],
               Integer 3 \<mapsto> [Integer 3, Text ''Category 3'']]]
           None) \<and>
      Errorf ''syncing table categories'' (Failure (ExecInsert ''categories'' 1)) =
        Errorf (''syncing table '' @ name table) e)"
proof -
  let ?D = "Conn [''users'' \<mapsto>
              [Integer 1 \<mapsto> [Integer 1, Text ''Alice'', Text ''alice@test.com''],
               Integer 2 \<mapsto> [Integer 2, Text ''Bob'', Text ''bob@test.com'']],
            ''categories'' \<mapsto>
              [Integer 1 \<mapsto> [Integer 1, Text ''Old Category 1''],
               Integer 3 \<mapsto> [Integer 3, Text ''Category 3'']]]
           None"
  have h1: "Sync ex_faulty2 ex_src ex_cfg ex_dst =
     (Some (Errorf ''syncing table categories'' (Failure (ExecInsert ''categories'' 1))), ?D)"
    by (rule Sync_example_failure)
  have h2: "\<not> fault ex_faulty2 OpenSrc" and h3: "\<not> fault ex_faulty2 OpenDst"
    by (simp_all add: ex_faulty2_def)
  have h4: "getTables ex_faulty2 ex_src = Inr [ex_users_table, ex_categories_table]"
    by (simp add: getTables_def getTableInfo_def table_info_def ex_defs)
  have r: "retained ex_cfg [ex_users_table, ex_categories_table] =
             [ex_users_table] @ ex_categories_table # []"
    by (simp add: retained_def ex_cfg_def)
  from Sync_stops_at_first_failure[OF h1 h2 h3 h4]
  have "\<exists>before table rest e.
      retained ex_cfg [ex_users_table, ex_categories_table] = before @ table # rest \<and>
      syncTable ex_faulty2 ex_src table ex_cfg (run ex_faulty2 ex_src ex_cfg before ex_dst) =
        (Some e, ?D) \<and>
      Errorf ''syncing table categories'' (Failure (ExecInsert ''categories'' 1)) =
        Errorf (''syncing table '' @ name table) e"
    by auto
  then show ?thesis using h1 h2 h3 h4 r by blast
qed



end
